theory Spec2Isabelle
  imports Complex_Main
begin

text \<open>
  A model of the data portal's access gate: the volume discount tiers of \<open>pricing.py\<close>,
  the rolling purchase ledger of \<open>volume_tracker.py\<close>, and the rate limiter and the x402
  payment verification of \<open>auth.py\<close>. Clocks, Firestore failures, the facilitator and
  the library parsers are inputs of the functions that read them.
\<close>

section \<open>Shared Python helpers\<close>

text \<open>
  Time stamps (\<open>datetime\<close> values) are integers counting microseconds since the Unix
  epoch, the resolution of Python's \<open>datetime\<close>. Monetary amounts are Python floats in
  the source; they are modelled by exact rationals, so the rounding error of float
  arithmetic is not part of the model.
\<close>

type_synonym datetime = int

definition MICROS_PER_SECOND :: int where
  "MICROS_PER_SECOND = 1000000"

definition MICROS_PER_DAY :: int where
  "MICROS_PER_DAY = 86400 * 1000000"

text \<open>\<open>timedelta.days\<close> of the difference of two datetimes: the floor of the day count.\<close>

definition timedelta_days :: "datetime \<Rightarrow> datetime \<Rightarrow> int" where
  "timedelta_days a b = (a - b) div MICROS_PER_DAY"

text \<open>Python's \<open>round(x)\<close>: to the nearest integer, ties to the even one.\<close>

definition py_round :: "rat \<Rightarrow> int" where
  "py_round x =
     (let f = \<lfloor>x\<rfloor>; d = x - of_int f
      in if d < 1 / 2 then f
         else if d > 1 / 2 then f + 1
         else if even f then f else f + 1)"

text \<open>Python's \<open>round(x, n)\<close> for \<open>n\<close> decimal places.\<close>

definition py_round_nd :: "rat \<Rightarrow> nat \<Rightarrow> rat" where
  "py_round_nd x n = of_int (py_round (x * 10 ^ n)) / 10 ^ n"

text \<open>\<open>str(n)\<close> for an integer: its decimal digits, with a minus sign when negative.\<close>

definition digit_char :: "nat \<Rightarrow> char" where
  "digit_char d = ''0123456789'' ! d"

fun str_nat :: "nat \<Rightarrow> string" where
  "str_nat n = (if n < 10 then [digit_char n] else str_nat (n div 10) @ [digit_char (n mod 10)])"

declare str_nat.simps [simp del]

definition str_int :: "int \<Rightarrow> string" where
  "str_int i = (if i < 0 then CHR ''-'' # str_nat (nat (- i)) else str_nat (nat i))"

text \<open>\<open>"{:.2f}".format(x)\<close>: two decimal places.\<close>

definition format_2f :: "rat \<Rightarrow> string" where
  "format_2f x =
     (let c = py_round (x * 100); a = nat \<bar>c\<bar>
      in (if c < 0 then ''-'' else '''') @ str_nat (a div 100) @ ''.''
         @ [digit_char ((a div 10) mod 10), digit_char (a mod 10)])"


section \<open>pricing.py: volume discount tiers\<close>

definition GENESIS_EPOCH_START :: datetime where
  "GENESIS_EPOCH_START = 1771804800 * MICROS_PER_SECOND"

definition GENESIS_EPOCH_DAYS :: int where
  "GENESIS_EPOCH_DAYS = 90"

definition GENESIS_DISCOUNT :: rat where
  "GENESIS_DISCOUNT = 80 / 100"

text \<open>The clock read by \<open>datetime.now(timezone.utc)\<close> is the argument \<open>now\<close>.\<close>

definition is_genesis_epoch :: "datetime \<Rightarrow> bool" where
  "is_genesis_epoch now = (timedelta_days now GENESIS_EPOCH_START < GENESIS_EPOCH_DAYS)"

definition genesis_days_remaining :: "datetime \<Rightarrow> int" where
  "genesis_days_remaining now =
     max 0 (GENESIS_EPOCH_DAYS - timedelta_days now GENESIS_EPOCH_START)"

record volume_tier =
  t_min :: int
  t_per_record :: rat
  t_discount :: string
  t_label :: string

definition VOLUME_TIERS :: "volume_tier list" where
  "VOLUME_TIERS =
     [\<lparr>t_min = 2000, t_per_record = 10 / 100, t_discount = ''50%'', t_label = ''Loyalty floor''\<rparr>,
      \<lparr>t_min = 500, t_per_record = 125 / 1000, t_discount = ''37%'', t_label = ''Volume''\<rparr>,
      \<lparr>t_min = 100, t_per_record = 15 / 100, t_discount = ''25%'', t_label = ''Batch''\<rparr>,
      \<lparr>t_min = 0, t_per_record = 20 / 100, t_discount = ''0%'', t_label = ''Standard''\<rparr>]"

definition ENTERPRISE_OUTREACH_THRESHOLD_USD :: rat where
  "ENTERPRISE_OUTREACH_THRESHOLD_USD = 200"

text \<open>
  The dictionary returned by \<open>get_volume_price\<close> and extended by
  \<open>VolumeTracker.record_purchase\<close>; a key that may be missing is an option.
\<close>

record tier_info =
  per_record :: rat
  discount :: string
  label :: string
  cumulative_records :: int
  genesis_epoch :: "bool option"
  genesis_days_left :: "int option"
  full_price :: "rat option"
  spend_30d :: "rat option"
  enterprise_outreach :: "bool option"
  enterprise_message :: "string option"

definition tier_result :: "datetime \<Rightarrow> int \<Rightarrow> volume_tier \<Rightarrow> tier_info" where
  "tier_result now c t =
     (let result = \<lparr>per_record = t_per_record t, discount = t_discount t, label = t_label t,
                     cumulative_records = c, genesis_epoch = None, genesis_days_left = None,
                     full_price = None, spend_30d = None, enterprise_outreach = None,
                     enterprise_message = None\<rparr>
      in if is_genesis_epoch now
         then result\<lparr>per_record := py_round_nd (t_per_record t * GENESIS_DISCOUNT) 4,
                     genesis_epoch := Some True,
                     genesis_days_left := Some (genesis_days_remaining now),
                     full_price := Some (t_per_record t)\<rparr>
         else result)"

text \<open>The \<open>for tier in VOLUME_TIERS\<close> loop, with the fallback after it.\<close>

fun volume_price_loop :: "datetime \<Rightarrow> int \<Rightarrow> volume_tier list \<Rightarrow> tier_info" where
  "volume_price_loop now c [] =
     \<lparr>per_record = 20 / 100, discount = ''0%'', label = ''Standard'', cumulative_records = 0,
      genesis_epoch = None, genesis_days_left = None, full_price = None, spend_30d = None,
      enterprise_outreach = None, enterprise_message = None\<rparr>"
| "volume_price_loop now c (t # ts) =
     (if c \<ge> t_min t then tier_result now c t else volume_price_loop now c ts)"

definition get_volume_price :: "datetime \<Rightarrow> int \<Rightarrow> tier_info" where
  "get_volume_price now cumulative_records_30d =
     volume_price_loop now cumulative_records_30d VOLUME_TIERS"



section \<open>volume_tracker.py: the 30-day rolling ledger\<close>

definition WINDOW_DAYS :: int where
  "WINDOW_DAYS = 30"

text \<open>
  One purchase event of a wallet's ledger document. The source reads every field with
  \<open>e.get(field, default)\<close>, so a stored event may lack any of them.
\<close>

record event =
  ev_timestamp :: "datetime option"
  ev_records :: "int option"
  ev_amount_usd :: "rat option"
  ev_endpoint :: "string option"

text \<open>
  A document of the collection \<open>agent_volume_tracking\<close>. The fields read back with a
  default (\<open>events\<close>, \<open>first_seen\<close>, \<open>records_30d\<close>) may be missing.
\<close>

record ledger_doc =
  l_wallet_address :: string
  l_events :: "event list option"
  l_records_30d :: "int option"
  l_spend_30d :: rat
  l_last_updated :: datetime
  l_first_seen :: "datetime option"

type_synonym ledger_store = "string \<rightharpoonup> ledger_doc"

text \<open>
  A Firestore call may raise; which call does, if any, is an input of the model. The
  tracker's \<open>_db\<close> is \<open>None\<close> until \<open>set_db\<close> is called.
\<close>

datatype store_fault = NoFault | GetRaises | SetRaises

definition new_event :: "datetime \<Rightarrow> int \<Rightarrow> rat \<Rightarrow> string \<Rightarrow> event" where
  "new_event now records amount endpoint =
     \<lparr>ev_timestamp = Some now, ev_records = Some records, ev_amount_usd = Some amount,
      ev_endpoint = Some endpoint\<rparr>"

definition event_time :: "datetime \<Rightarrow> event \<Rightarrow> datetime" where
  "event_time now e = (case ev_timestamp e of None \<Rightarrow> now | Some t \<Rightarrow> t)"

definition event_records :: "event \<Rightarrow> int" where
  "event_records e = (case ev_records e of None \<Rightarrow> 0 | Some r \<Rightarrow> r)"

definition event_amount :: "event \<Rightarrow> rat" where
  "event_amount e = (case ev_amount_usd e of None \<Rightarrow> 0 | Some a \<Rightarrow> a)"

text \<open>Lines 105 to 117 of \<open>record_purchase\<close>: the tier with its spend and outreach keys.\<close>

definition purchase_tier_info :: "datetime \<Rightarrow> int \<Rightarrow> rat \<Rightarrow> tier_info" where
  "purchase_tier_info now total_records total_spend =
     (let tier_info = get_volume_price now total_records;
          tier_info = tier_info\<lparr>spend_30d := Some (py_round_nd total_spend 2)\<rparr>;
          tier_info = tier_info\<lparr>enterprise_outreach :=
                        Some (total_spend \<ge> ENTERPRISE_OUTREACH_THRESHOLD_USD)\<rparr>
      in if enterprise_outreach tier_info = Some True
         then tier_info\<lparr>enterprise_message := Some
                (''You'' @ [CHR 0x27] @ ''ve spent $'' @ format_2f total_spend @ '' in the last 30 days. ''
                 @ ''Enterprise licenses start at $8,000 with full compliance manifests ''
                 @ ''and unlimited API access. Contact enterprise@iaeternum.ai'')\<rparr>
         else tier_info)"

text \<open>
  \<open>VolumeTracker.record_purchase\<close>: the result and the tracker's store after the call.
  Any exception inside the \<open>try\<close> gives the standard tier and no write.
\<close>

definition record_purchase ::
  "store_fault \<Rightarrow> datetime \<Rightarrow> ledger_store option \<Rightarrow> string \<Rightarrow> int \<Rightarrow> rat \<Rightarrow> string
     \<Rightarrow> tier_info \<times> ledger_store option" where
  "record_purchase fault now db wallet_address records amount_usd endpoint =
     (case db of
        None \<Rightarrow> (get_volume_price now 0, db)
      | Some store \<Rightarrow>
          if wallet_address = [] then (get_volume_price now 0, db)
          else
            let window_start = now - WINDOW_DAYS * MICROS_PER_DAY in
            if fault = GetRaises then (get_volume_price now 0, db)
            else
              (case store wallet_address of
                 Some data \<Rightarrow>
                   let events =
                         filter (\<lambda>e. event_time now e > window_start)
                           (case l_events data of None \<Rightarrow> [] | Some es \<Rightarrow> es)
                         @ [new_event now records amount_usd endpoint];
                       total_records = sum_list (map event_records events);
                       total_spend = sum_list (map event_amount events)
                   in if fault = SetRaises then (get_volume_price now 0, db)
                      else
                        (purchase_tier_info now total_records total_spend,
                         Some (store(wallet_address \<mapsto>
                           \<lparr>l_wallet_address = wallet_address,
                            l_events = Some events,
                            l_records_30d = Some total_records,
                            l_spend_30d = py_round_nd total_spend 2,
                            l_last_updated = now,
                            l_first_seen =
                              Some (case l_first_seen data of None \<Rightarrow> now | Some t \<Rightarrow> t)\<rparr>)))
               | None \<Rightarrow>
                   let total_records = records;
                       total_spend = amount_usd
                   in if fault = SetRaises then (get_volume_price now 0, db)
                      else
                        (purchase_tier_info now total_records total_spend,
                         Some (store(wallet_address \<mapsto>
                           \<lparr>l_wallet_address = wallet_address,
                            l_events = Some [new_event now records amount_usd endpoint],
                            l_records_30d = Some total_records,
                            l_spend_30d = py_round_nd total_spend 2,
                            l_last_updated = now,
                            l_first_seen = Some now\<rparr>)))))"


section \<open>auth.py: the rate limiter\<close>

text \<open>
  A document of the collection \<open>rate_limits\<close>. The counter is read with
  \<open>data.get("count", 0)\<close>, so it may be missing from a stored document.
\<close>

record rate_limit_doc =
  d_key :: string
  d_count :: "int option"
  d_window :: string
  d_created_at :: datetime
  d_expire_at :: datetime

type_synonym rate_store = "string \<rightharpoonup> rate_limit_doc"

text \<open>
  The state of a \<open>RateLimiter\<close>: \<open>_memory\<close> is a \<open>defaultdict(list)\<close> of
  \<open>time.monotonic()\<close> readings (floats, modelled by reals), \<open>_db\<close> the Firestore
  client, \<open>None\<close> until \<open>set_db\<close> is called.
\<close>

record rate_limiter =
  memory :: "string \<rightharpoonup> real list"
  db :: "rate_store option"

datatype py_error = ZeroDivisionError | FirestoreError

text \<open>
  Reading \<open>d[key]\<close> from a \<open>defaultdict(list)\<close>: a missing key is entered with an
  empty list, which is returned.
\<close>

definition defaultdict_get :: "(string \<rightharpoonup> real list) \<Rightarrow> string \<Rightarrow> real list \<times> (string \<rightharpoonup> real list)" where
  "defaultdict_get m key =
     (case m key of None \<Rightarrow> ([], m(key \<mapsto> [])) | Some ts \<Rightarrow> (ts, m))"

text \<open>\<open>int(now.timestamp())\<close>: whole seconds since the epoch, truncated towards zero.\<close>

definition timestamp_int :: "datetime \<Rightarrow> int" where
  "timestamp_int now =
     (if now \<ge> 0 then now div MICROS_PER_SECOND else - ((- now) div MICROS_PER_SECOND))"

text \<open>
  The window key of \<open>_check_firestore\<close>. The C library's \<open>strftime("%Y-%m-%d")\<close> is the
  parameter \<open>strftime_ymd\<close>; Python's \<open>//\<close> raises on a zero divisor.
\<close>

definition window_key :: "(datetime \<Rightarrow> string) \<Rightarrow> datetime \<Rightarrow> int \<Rightarrow> py_error + string" where
  "window_key strftime_ymd now window_seconds =
     (if window_seconds \<ge> 86400 then Inr (strftime_ymd now)
      else if window_seconds = 0 then Inl ZeroDivisionError
      else Inr (str_int (timestamp_int now div window_seconds)))"

text \<open>
  The transaction body \<open>update_in_txn\<close>, as a function of the document read (\<open>None\<close>
  when it does not exist): the decision and the document after the transaction.
\<close>

definition update_in_txn ::
  "datetime \<Rightarrow> string \<Rightarrow> string \<Rightarrow> int \<Rightarrow> int \<Rightarrow> rate_limit_doc option
     \<Rightarrow> bool \<times> rate_limit_doc option" where
  "update_in_txn now key wkey max_requests window_seconds doc =
     (case doc of
        Some data \<Rightarrow>
          let count = (case d_count data of None \<Rightarrow> 0 | Some c \<Rightarrow> c)
          in if count \<ge> max_requests then (False, doc)
             else (True, Some (data\<lparr>d_count := Some (count + 1)\<rparr>))
      | None \<Rightarrow>
          let expire_at = now + (window_seconds + 3600) * MICROS_PER_SECOND
          in (True, Some \<lparr>d_key = key, d_count = Some 1, d_window = wkey,
                          d_created_at = now, d_expire_at = expire_at\<rparr>))"

text \<open>
  \<open>RateLimiter._check_firestore\<close> on the store behind \<open>self._db\<close>. Whether Firestore
  raises in this call is the input \<open>store_raises\<close>.
\<close>

definition check_firestore ::
  "(datetime \<Rightarrow> string) \<Rightarrow> bool \<Rightarrow> datetime \<Rightarrow> rate_store \<Rightarrow> string \<Rightarrow> int \<Rightarrow> int
     \<Rightarrow> py_error + (bool \<times> rate_store)" where
  "check_firestore strftime_ymd store_raises now store key max_requests window_seconds =
     (case window_key strftime_ymd now window_seconds of
        Inl e \<Rightarrow> Inl e
      | Inr wkey \<Rightarrow>
          let doc_id = key @ '':'' @ wkey
          in if store_raises then Inl FirestoreError
             else
               let (allowed, doc) =
                     update_in_txn now key wkey max_requests window_seconds (store doc_id)
               in Inr (allowed, store(doc_id := doc)))"

text \<open>\<open>RateLimiter._check_memory\<close> at the monotonic clock reading \<open>now\<close>.\<close>

definition check_memory ::
  "real \<Rightarrow> rate_limiter \<Rightarrow> string \<Rightarrow> int \<Rightarrow> int \<Rightarrow> bool \<times> rate_limiter" where
  "check_memory now L key max_requests window_seconds =
     (let cutoff = now - of_int window_seconds;
          (ts, m) = defaultdict_get (memory L) key;
          kept = filter (\<lambda>t. t > cutoff) ts;
          m = m(key \<mapsto> kept)
      in if int (length kept) \<ge> max_requests then (False, L\<lparr>memory := m\<rparr>)
         else (True, L\<lparr>memory := m(key \<mapsto> kept @ [now])\<rparr>))"

text \<open>\<open>RateLimiter.remaining\<close>: the value returned and the limiter after the call.\<close>

definition remaining ::
  "real \<Rightarrow> rate_limiter \<Rightarrow> string \<Rightarrow> int \<Rightarrow> int \<Rightarrow> int \<times> rate_limiter" where
  "remaining now L key max_requests window_seconds =
     (let cutoff = now - of_int window_seconds;
          (ts, m) = defaultdict_get (memory L) key;
          active = filter (\<lambda>t. t > cutoff) ts
      in (max 0 (max_requests - int (length active)), L\<lparr>memory := m\<rparr>))"

text \<open>
  \<open>RateLimiter.check_async\<close>: the durable path when a client is set, the in-memory path
  when none is set or when the durable path raises. \<open>now\<close> is the wall clock read by
  \<open>_check_firestore\<close>, \<open>mono_now\<close> the monotonic clock read by \<open>_check_memory\<close>.
\<close>

definition check_async ::
  "(datetime \<Rightarrow> string) \<Rightarrow> bool \<Rightarrow> datetime \<Rightarrow> real \<Rightarrow> rate_limiter \<Rightarrow> string \<Rightarrow> int \<Rightarrow> int
     \<Rightarrow> bool \<times> rate_limiter" where
  "check_async strftime_ymd store_raises now mono_now L key max_requests window_seconds =
     (case db L of
        Some store \<Rightarrow>
          (case check_firestore strftime_ymd store_raises now store key max_requests
                  window_seconds of
             Inr (allowed, store') \<Rightarrow> (allowed, L\<lparr>db := Some store'\<rparr>)
           | Inl e \<Rightarrow> check_memory mono_now L key max_requests window_seconds)
      | None \<Rightarrow> check_memory mono_now L key max_requests window_seconds)"

text \<open>
  A caller making one \<open>check_async\<close> call after another on the same key and limits: each
  call has its own clock readings and its own Firestore behaviour.
\<close>

record call_input =
  wall_clock :: datetime
  mono_clock :: real
  store_raises :: bool

fun check_async_calls ::
  "(datetime \<Rightarrow> string) \<Rightarrow> rate_limiter \<Rightarrow> string \<Rightarrow> int \<Rightarrow> int \<Rightarrow> call_input list
     \<Rightarrow> bool list \<times> rate_limiter" where
  "check_async_calls strftime_ymd L key max_requests window_seconds [] = ([], L)"
| "check_async_calls strftime_ymd L key max_requests window_seconds (c # cs) =
     (let (allowed, L') = check_async strftime_ymd (store_raises c) (wall_clock c) (mono_clock c)
                            L key max_requests window_seconds;
          (rest, L'') = check_async_calls strftime_ymd L' key max_requests window_seconds cs
      in (allowed # rest, L''))"

text \<open>The counter stored for a document id, and the timestamps recorded for a key.\<close>

definition stored_count :: "rate_limiter \<Rightarrow> string \<Rightarrow> int option" where
  "stored_count L doc_id =
     (case db L of
        None \<Rightarrow> None
      | Some store \<Rightarrow> (case store doc_id of None \<Rightarrow> None | Some data \<Rightarrow> d_count data))"

definition timestamps :: "rate_limiter \<Rightarrow> string \<Rightarrow> real list" where
  "timestamps L key = (case memory L key of None \<Rightarrow> [] | Some ts \<Rightarrow> ts)"


text \<open>
  Fixtures for concrete runs: a \<open>strftime\<close> that knows one day, 2026-11-04 (UTC), a
  limiter with an empty Firestore behind it, a limiter with no Firestore, and a call at
  given clock readings during which Firestore does not raise.
\<close>

definition strftime_stub :: "datetime \<Rightarrow> string" where
  "strftime_stub now = ''2026-11-04''"

definition durable_limiter :: rate_limiter where
  "durable_limiter = \<lparr>memory = Map.empty, db = Some Map.empty\<rparr>"

definition memory_limiter :: rate_limiter where
  "memory_limiter = \<lparr>memory = Map.empty, db = None\<rparr>"

definition call_at :: "datetime \<Rightarrow> real \<Rightarrow> call_input" where
  "call_at now mono_now = \<lparr>wall_clock = now, mono_clock = mono_now, store_raises = False\<rparr>"


section \<open>auth.py: x402 payment verification\<close>

text \<open>
  Values of Python's \<open>json\<close> module. An object is an association list read with
  \<open>dict.get\<close>; the fractional numbers are rationals.
\<close>

datatype json =
    JNull
  | JBool bool
  | JInt int
  | JFloat rat
  | JStr string
  | JArr "json list"
  | JObj "(string \<times> json) list"

text \<open>\<open>d.get(key, default)\<close>.\<close>

definition dict_get :: "(string \<times> 'v) list \<Rightarrow> string \<Rightarrow> 'v \<Rightarrow> 'v" where
  "dict_get d key dflt = (case map_of d key of None \<Rightarrow> dflt | Some v \<Rightarrow> v)"

text \<open>Python's truth value of a JSON value, as tested by \<open>not success\<close>.\<close>

fun truthy :: "json \<Rightarrow> bool" where
  "truthy JNull = False"
| "truthy (JBool b) = b"
| "truthy (JInt i) = (i \<noteq> 0)"
| "truthy (JFloat r) = (r \<noteq> 0)"
| "truthy (JStr s) = (s \<noteq> [])"
| "truthy (JArr xs) = (xs \<noteq> [])"
| "truthy (JObj d) = (d \<noteq> [])"

text \<open>\<open>type(v).__name__\<close>.\<close>

fun type_name :: "json \<Rightarrow> string" where
  "type_name JNull = ''NoneType''"
| "type_name (JBool b) = ''bool''"
| "type_name (JInt i) = ''int''"
| "type_name (JFloat r) = ''float''"
| "type_name (JStr s) = ''str''"
| "type_name (JArr xs) = ''list''"
| "type_name (JObj d) = ''dict''"

text \<open>
  The float \<open>required_amount_usd\<close>: a finite value (a rational in the model), an infinity
  or a NaN, which \<open>int(round(...))\<close> refuses.
\<close>

datatype pyfloat = Finite rat | PosInf | NegInf | NaN

text \<open>
  The exceptions the \<open>try\<close> block of \<open>verify_x402_payment\<close> tells apart:
  \<open>httpx.TimeoutException\<close>, and any other exception with its message \<open>str(e)\<close>.
\<close>

datatype exn = TimeoutException | OtherException string

text \<open>
  \<open>X402PaymentResult\<close>. The class is untyped: \<open>tx_hash\<close> and \<open>error\<close> hold whatever
  JSON value the facilitator's object carries.
\<close>

record x402_result =
  valid :: bool
  amount_usd :: pyfloat
  tx_hash :: json
  error :: json

definition payment_failed :: "json \<Rightarrow> x402_result" where
  "payment_failed e = \<lparr>valid = False, amount_usd = Finite 0, tx_hash = JStr [], error = e\<rparr>"

definition payment_ok :: "pyfloat \<Rightarrow> json \<Rightarrow> x402_result" where
  "payment_ok a tx = \<lparr>valid = True, amount_usd = a, tx_hash = tx, error = JStr []\<rparr>"

text \<open>
  The HTTP exchange with the facilitator: the request posted, and what \<open>client.post\<close>
  does. A response carries its status code, its text and the result of \<open>resp.json()\<close>,
  which raises (\<open>Inl\<close>, with the message) on a body that is not JSON.
\<close>

record http_request =
  r_url :: string
  r_headers :: "(string \<times> string) list"
  r_body :: json

datatype http_outcome =
    HttpTimeout
  | HttpRaises string
  | HttpResponse int string "string + json"

datatype jwt_outcome = JwtToken string | JwtImportError | JwtRaises string

text \<open>
  What the function takes from its surroundings: the module constants read from the
  process environment, the library functions \<open>base64.b64decode\<close> and \<open>json.loads\<close>
  (\<open>None\<close> when they raise), \<open>coinbase_jwt._build_cdp_jwt\<close>, the facilitator behind
  \<open>client.post\<close>, and \<open>str\<close> on a JSON value that is not a string.
\<close>

record x402_env =
  X402_TEST_MODE :: bool
  X402_FACILITATOR_URL :: string
  BASE_WALLET_ADDRESS :: string
  CDP_API_KEY_ID :: string
  CDP_API_KEY_SECRET :: string
  X402_NETWORK :: "string option"
  b64decode :: "string \<Rightarrow> string option"
  json_loads :: "string \<Rightarrow> json option"
  build_cdp_jwt :: "string \<Rightarrow> string \<Rightarrow> string \<Rightarrow> string \<Rightarrow> jwt_outcome"
  http_post :: "http_request \<Rightarrow> http_outcome"
  py_str :: "json \<Rightarrow> string"

definition USDC_ADDRESSES :: "(string \<times> string) list" where
  "USDC_ADDRESSES =
     [(''eip155:8453'', ''0x833589fCD6eDb6E08f4c7C32D4f71b54bdA02913''),
      (''eip155:84532'', ''0x036CbD53842c5426634e7929541eC2318f3dCF7e'')]"

definition USDC_EIP712_DOMAINS :: "(string \<times> json) list" where
  "USDC_EIP712_DOMAINS =
     [(''eip155:8453'', JObj [(''name'', JStr ''USD Coin''), (''version'', JStr ''2'')]),
      (''eip155:84532'', JObj [(''name'', JStr ''USDC''), (''version'', JStr ''2'')])]"

text \<open>\<open>needle in haystack\<close> on strings.\<close>

fun contains :: "string \<Rightarrow> string \<Rightarrow> bool" where
  "contains needle [] = (needle = [])"
| "contains needle (c # cs) = (take (length needle) (c # cs) = needle \<or> contains needle cs)"

text \<open>\<open>str(v)\<close>: a string is itself.\<close>

definition str_value :: "x402_env \<Rightarrow> json \<Rightarrow> string" where
  "str_value env v = (case v of JStr s \<Rightarrow> s | _ \<Rightarrow> py_str env v)"

text \<open>Lines 344 to 352: base64 then JSON first, raw JSON second.\<close>

definition decode_payment_header :: "x402_env \<Rightarrow> string \<Rightarrow> json option" where
  "decode_payment_header env payment_header =
     (case (case b64decode env payment_header of
              None \<Rightarrow> None
            | Some decoded_bytes \<Rightarrow> json_loads env decoded_bytes) of
        Some payment_payload \<Rightarrow> Some payment_payload
      | None \<Rightarrow> json_loads env payment_header)"

text \<open>Line 357: \<open>str(int(round(required_amount_usd * 1_000_000)))\<close>.\<close>

definition amount_smallest :: "pyfloat \<Rightarrow> exn + string" where
  "amount_smallest a =
     (case a of
        Finite x \<Rightarrow> Inr (str_int (py_round (x * 1000000)))
      | NaN \<Rightarrow> Inl (OtherException ''cannot convert float NaN to integer'')
      | _ \<Rightarrow> Inl (OtherException ''cannot convert float infinity to integer''))"

text \<open>Lines 375 to 388: the request headers, with the CDP bearer token when it applies.\<close>

definition auth_headers :: "x402_env \<Rightarrow> exn + (string \<times> string) list" where
  "auth_headers env =
     (let headers = [(''Content-Type'', ''application/json'')]
      in if contains ''cdp.coinbase.com'' (X402_FACILITATOR_URL env)
            \<and> CDP_API_KEY_ID env \<noteq> [] \<and> CDP_API_KEY_SECRET env \<noteq> []
         then (case build_cdp_jwt env (CDP_API_KEY_ID env) (CDP_API_KEY_SECRET env)
                      ''api.cdp.coinbase.com'' ''/platform/v2/x402/settle'' of
                 JwtToken jwt_token \<Rightarrow>
                   Inr (headers @ [(''Authorization'', ''Bearer '' @ jwt_token)])
               | JwtImportError \<Rightarrow> Inr headers
               | JwtRaises msg \<Rightarrow> Inl (OtherException msg))
         else Inr headers)"

text \<open>Lines 390 to 428: the call's outcome read as a result, or as an exception raised.\<close>

definition interpret_response :: "x402_env \<Rightarrow> pyfloat \<Rightarrow> http_outcome \<Rightarrow> exn + x402_result" where
  "interpret_response env required_amount_usd outcome =
     (case outcome of
        HttpTimeout \<Rightarrow> Inl TimeoutException
      | HttpRaises msg \<Rightarrow> Inl (OtherException msg)
      | HttpResponse status_code text body \<Rightarrow>
          if status_code \<noteq> 200
          then Inr (payment_failed (JStr (''Facilitator settle failed ('' @ str_int status_code
                      @ ''): '' @ take 200 text)))
          else
            (case body of
               Inl msg \<Rightarrow> Inl (OtherException msg)
             | Inr raw \<Rightarrow>
                 (case raw of
                    JStr s \<Rightarrow> Inr (payment_ok required_amount_usd raw)
                  | JObj d \<Rightarrow>
                      let success = dict_get d ''success'' (JBool False);
                          tx_field = dict_get d ''transaction'' (dict_get d ''txHash'' (JStr []));
                          tx_hash = (case tx_field of
                                       JObj t \<Rightarrow> dict_get t ''txHash'' (JStr [])
                                     | _ \<Rightarrow> JStr (str_value env tx_field))
                      in if \<not> truthy success
                         then Inr (payment_failed (dict_get d ''error'' (JStr ''Settlement failed'')))
                         else Inr (payment_ok required_amount_usd tx_hash)
                  | _ \<Rightarrow>
                      Inr (payment_failed (JStr (''Unexpected facilitator response type: ''
                             @ type_name raw))))))"

text \<open>
  The body of the \<open>try\<close> block (lines 339 to 428): its result or the exception it
  raises, with the requests posted to the facilitator.
\<close>

definition verify_try ::
  "x402_env \<Rightarrow> string \<Rightarrow> pyfloat \<Rightarrow> (exn + x402_result) \<times> http_request list" where
  "verify_try env payment_header required_amount_usd =
     (let x402_network = (case X402_NETWORK env of None \<Rightarrow> ''eip155:8453'' | Some n \<Rightarrow> n);
          USDC_ASSET = dict_get USDC_ADDRESSES x402_network
                         ''0x833589fCD6eDb6E08f4c7C32D4f71b54bdA02913'';
          usdc_domain = dict_get USDC_EIP712_DOMAINS x402_network
                          (JObj [(''name'', JStr ''USD Coin''), (''version'', JStr ''2'')])
      in case decode_payment_header env payment_header of
           None \<Rightarrow> (Inr (payment_failed (JStr ''Cannot decode payment header'')), [])
         | Some payment_payload \<Rightarrow>
             (case payment_payload of
                JObj p \<Rightarrow>
                  let version = dict_get p ''x402Version'' (JInt 1)
                  in (case amount_smallest required_amount_usd of
                        Inl e \<Rightarrow> (Inl e, [])
                      | Inr amount \<Rightarrow>
                          let requirements = JObj
                                [(''scheme'', JStr ''exact''),
                                 (''network'', JStr x402_network),
                                 (''asset'', JStr USDC_ASSET),
                                 (''amount'', JStr amount),
                                 (''payTo'', JStr (BASE_WALLET_ADDRESS env)),
                                 (''maxTimeoutSeconds'', JInt 300),
                                 (''extra'', usdc_domain)];
                              settle_body = JObj
                                [(''x402Version'', version),
                                 (''paymentPayload'', payment_payload),
                                 (''paymentRequirements'', requirements)]
                          in (case auth_headers env of
                                Inl e \<Rightarrow> (Inl e, [])
                              | Inr headers \<Rightarrow>
                                  let request = \<lparr>r_url = X402_FACILITATOR_URL env @ ''/settle'',
                                                  r_headers = headers, r_body = settle_body\<rparr>
                                  in (interpret_response env required_amount_usd
                                        (http_post env request), [request])))
              | _ \<Rightarrow>
                  (Inl (OtherException ([CHR 0x27] @ type_name payment_payload @ [CHR 0x27]
                          @ '' object has no attribute '' @ [CHR 0x27] @ ''get'' @ [CHR 0x27])),
                   [])))"

text \<open>The two \<open>except\<close> clauses (lines 430 to 434).\<close>

definition catch_exceptions :: "exn + x402_result \<Rightarrow> x402_result" where
  "catch_exceptions r =
     (case r of
        Inr res \<Rightarrow> res
      | Inl TimeoutException \<Rightarrow> payment_failed (JStr ''x402 facilitator timeout'')
      | Inl (OtherException msg) \<Rightarrow> payment_failed (JStr (''Verification error: '' @ msg)))"

text \<open>
  \<open>verify_x402_payment\<close>: the result returned and the requests posted to the facilitator
  during the call.
\<close>

definition verify_x402_payment ::
  "x402_env \<Rightarrow> string \<Rightarrow> pyfloat \<Rightarrow> x402_result \<times> http_request list" where
  "verify_x402_payment env payment_header required_amount_usd =
     (if payment_header = [] then (payment_failed (JStr ''Missing payment header''), [])
      else if X402_TEST_MODE env
      then (payment_ok required_amount_usd (JStr ''test-mode-no-tx''), [])
      else
        let (r, posted) = verify_try env payment_header required_amount_usd
        in (catch_exceptions r, posted))"

text \<open>
  A facilitator stub for concrete runs: production mode, no CDP credentials, a facilitator
  that answers every request with \<open>outcome\<close>; \<open>e30=\<close> is the base64 of \<open>{}\<close>, and
  \<open>{}\<close> is the empty JSON object.
\<close>

definition stub_env :: "http_outcome \<Rightarrow> x402_env" where
  "stub_env outcome =
     \<lparr>X402_TEST_MODE = False,
      X402_FACILITATOR_URL = ''https://facilitator.example/x402'',
      BASE_WALLET_ADDRESS = ''0xFE141943a93c184606F3060103D975662327063B'',
      CDP_API_KEY_ID = [],
      CDP_API_KEY_SECRET = [],
      X402_NETWORK = None,
      b64decode = (\<lambda>s. if s = ''e30='' then Some ''{}'' else if s = ''{}'' then Some [] else None),
      json_loads = (\<lambda>s. if s = ''{}'' then Some (JObj []) else None),
      build_cdp_jwt = (\<lambda>key_id secret host path. JwtImportError),
      http_post = (\<lambda>request. outcome),
      py_str = (\<lambda>v. ''?'')\<rparr>"


section \<open>Properties of the volume tiers\<close>

lemma label_tier_result: "label (tier_result now c t) = t_label t"
  by (simp add: tier_result_def Let_def)

lemma volume_price_loop_find:
  "List.find (\<lambda>t. t_min t \<le> c) ts = Some t \<Longrightarrow> volume_price_loop now c ts = tier_result now c t"
  by (induction ts) (auto split: if_splits)

text \<open>
  Claim C6. For every non-negative 30-day record count, \<open>get_volume_price\<close> returns the
  first tier of \<open>VOLUME_TIERS\<close> whose minimum the count meets or exceeds, the minimums
  standing in descending order 2000, 500, 100, 0: at least 2000 records give the
  "Loyalty floor" tier, at least 500 the "Volume" tier, at least 100 the "Batch" tier and
  fewer than 100 the "Standard" tier. An aggregate of 120 records gives "Batch" and an
  aggregate of 2120 gives "Loyalty floor".
\<close>

theorem get_volume_price_tier:
  assumes "0 \<le> c"
  shows "map t_min VOLUME_TIERS = [2000, 500, 100, 0]
    \<and> (\<exists>t. List.find (\<lambda>t. t_min t \<le> c) VOLUME_TIERS = Some t
          \<and> get_volume_price now c = tier_result now c t)
    \<and> label (get_volume_price now c) =
        (if c \<ge> 2000 then ''Loyalty floor''
         else if c \<ge> 500 then ''Volume''
         else if c \<ge> 100 then ''Batch''
         else ''Standard'')
    \<and> label (get_volume_price now 120) = ''Batch''
    \<and> label (get_volume_price now 2120) = ''Loyalty floor''"
proof -
  have mins: "map t_min VOLUME_TIERS = [2000, 500, 100, 0]"
    by (simp add: VOLUME_TIERS_def)
  have lab: "label (get_volume_price now k) =
        (if k \<ge> 2000 then ''Loyalty floor''
         else if k \<ge> 500 then ''Volume''
         else if k \<ge> 100 then ''Batch''
         else ''Standard'')" if "0 \<le> k" for k
    using that by (simp add: get_volume_price_def VOLUME_TIERS_def label_tier_result)
  have "\<exists>t. List.find (\<lambda>t. t_min t \<le> c) VOLUME_TIERS = Some t"
    using assms by (auto simp add: VOLUME_TIERS_def)
  then obtain t where t: "List.find (\<lambda>t. t_min t \<le> c) VOLUME_TIERS = Some t" ..
  have sel: "get_volume_price now c = tier_result now c t"
    unfolding get_volume_price_def by (rule volume_price_loop_find [OF t])
  have "label (get_volume_price now 120) = ''Batch''"
    using lab [of 120] by simp
  moreover have "label (get_volume_price now 2120) = ''Loyalty floor''"
    using lab [of 2120] by simp
  ultimately show ?thesis
    using mins t sel lab [OF assms] by blast
qed

theorem get_volume_price_tier_witness:
  "label (get_volume_price 0 640) = ''Volume''
    \<and> (\<exists>t. List.find (\<lambda>t. t_min t \<le> 640) VOLUME_TIERS = Some t
          \<and> get_volume_price 0 640 = tier_result 0 640 t)"
  using get_volume_price_tier [of 640 0] by simp


section \<open>Properties of the volume ledger\<close>

lemma record_purchase_existing:
  assumes "store wallet = Some data" and "wallet \<noteq> []"
  shows "record_purchase NoFault now (Some store) wallet records amount endpoint =
     (let events = filter (\<lambda>e. event_time now e > now - WINDOW_DAYS * MICROS_PER_DAY)
                     (case l_events data of None \<Rightarrow> [] | Some es \<Rightarrow> es)
                   @ [new_event now records amount endpoint]
      in (purchase_tier_info now (sum_list (map event_records events))
            (sum_list (map event_amount events)),
          Some (store(wallet \<mapsto>
            \<lparr>l_wallet_address = wallet, l_events = Some events,
             l_records_30d = Some (sum_list (map event_records events)),
             l_spend_30d = py_round_nd (sum_list (map event_amount events)) 2,
             l_last_updated = now,
             l_first_seen = Some (case l_first_seen data of None \<Rightarrow> now | Some t \<Rightarrow> t)\<rparr>))))"
  using assms by (simp add: record_purchase_def Let_def)

lemma spend_purchase_tier_info:
  "spend_30d (purchase_tier_info now r s) = Some (py_round_nd s 2)"
  by (simp add: purchase_tier_info_def Let_def)

lemma outreach_purchase_tier_info:
  "enterprise_outreach (purchase_tier_info now r s) = Some (s \<ge> ENTERPRISE_OUTREACH_THRESHOLD_USD)"
  by (simp add: purchase_tier_info_def Let_def)

text \<open>
  Claim C7. For a wallet with an existing ledger document (and no Firestore failure),
  \<open>record_purchase\<close> writes one document whose event list is the stored events with a
  timestamp newer than \<open>now\<close> minus 30 days, followed by the new event. Every stored event
  older than the window is gone from it, no persisted event is older than the window, and
  the persisted \<open>records_30d\<close> and \<open>spend_30d\<close> (the latter rounded to cents) are the sums
  over exactly the persisted events, as is the \<open>spend_30d\<close> of the returned tier.
\<close>

theorem record_purchase_prunes:
  assumes "store wallet = Some data" and "wallet \<noteq> []"
  shows "\<exists>doc evs.
      snd (record_purchase NoFault now (Some store) wallet records amount endpoint)
        = Some (store(wallet \<mapsto> doc))
    \<and> l_events doc = Some evs
    \<and> evs = filter (\<lambda>e. event_time now e > now - WINDOW_DAYS * MICROS_PER_DAY)
               (case l_events data of None \<Rightarrow> [] | Some es \<Rightarrow> es)
             @ [new_event now records amount endpoint]
    \<and> (\<forall>e \<in> set evs. \<forall>t. ev_timestamp e = Some t \<longrightarrow> t > now - WINDOW_DAYS * MICROS_PER_DAY)
    \<and> (\<forall>es e t. l_events data = Some es \<and> e \<in> set es \<and> ev_timestamp e = Some t
           \<and> t < now - WINDOW_DAYS * MICROS_PER_DAY \<longrightarrow> e \<notin> set evs)
    \<and> l_records_30d doc = Some (sum_list (map event_records evs))
    \<and> l_spend_30d doc = py_round_nd (sum_list (map event_amount evs)) 2
    \<and> spend_30d (fst (record_purchase NoFault now (Some store) wallet records amount endpoint))
        = Some (py_round_nd (sum_list (map event_amount evs)) 2)"
proof -
  define evs where "evs = filter (\<lambda>e. event_time now e > now - WINDOW_DAYS * MICROS_PER_DAY)
               (case l_events data of None \<Rightarrow> [] | Some es \<Rightarrow> es)
             @ [new_event now records amount endpoint]"
  define doc where "doc = \<lparr>l_wallet_address = wallet, l_events = Some evs,
             l_records_30d = Some (sum_list (map event_records evs)),
             l_spend_30d = py_round_nd (sum_list (map event_amount evs)) 2,
             l_last_updated = now,
             l_first_seen = Some (case l_first_seen data of None \<Rightarrow> now | Some t \<Rightarrow> t)\<rparr>"
  have rp: "record_purchase NoFault now (Some store) wallet records amount endpoint =
      (purchase_tier_info now (sum_list (map event_records evs)) (sum_list (map event_amount evs)),
       Some (store(wallet \<mapsto> doc)))"
    using assms record_purchase_existing [of store wallet data now records amount endpoint]
    by (simp add: Let_def evs_def doc_def)
  have pos: "0 < WINDOW_DAYS * MICROS_PER_DAY"
    by (simp add: WINDOW_DAYS_def MICROS_PER_DAY_def)
  have fresh: "\<forall>e \<in> set evs. \<forall>t. ev_timestamp e = Some t \<longrightarrow> t > now - WINDOW_DAYS * MICROS_PER_DAY"
    using pos by (auto simp add: evs_def event_time_def new_event_def)
  have stale: "\<forall>es e t. l_events data = Some es \<and> e \<in> set es \<and> ev_timestamp e = Some t
           \<and> t < now - WINDOW_DAYS * MICROS_PER_DAY \<longrightarrow> e \<notin> set evs"
    using pos by (auto simp add: evs_def event_time_def new_event_def)
  show ?thesis
    apply (rule exI [of _ doc], rule exI [of _ evs])
    using fresh stale
    by (simp add: rp doc_def spend_purchase_tier_info) (simp add: evs_def)
qed

theorem record_purchase_prunes_witness:
  "\<exists>doc.
      snd (record_purchase NoFault (31 * MICROS_PER_DAY)
            (Some [''0xabc'' \<mapsto>
               \<lparr>l_wallet_address = ''0xabc'',
                l_events = Some [new_event 0 40 8 ''oracle'',
                                 new_event (2 * MICROS_PER_DAY) 40 8 ''oracle''],
                l_records_30d = Some 80, l_spend_30d = 16,
                l_last_updated = 2 * MICROS_PER_DAY, l_first_seen = Some 0\<rparr>])
            ''0xabc'' 3 (1 / 2) ''oracle'')
        = Some [''0xabc'' \<mapsto> doc]
    \<and> l_events doc = Some [new_event (2 * MICROS_PER_DAY) 40 8 ''oracle'',
                            new_event (31 * MICROS_PER_DAY) 3 (1 / 2) ''oracle'']
    \<and> l_records_30d doc = Some 43
    \<and> l_spend_30d doc = 17 / 2"
proof -
  let ?data = "\<lparr>l_wallet_address = ''0xabc'',
                l_events = Some [new_event 0 40 8 ''oracle'',
                                 new_event (2 * MICROS_PER_DAY) 40 8 ''oracle''],
                l_records_30d = Some 80, l_spend_30d = 16,
                l_last_updated = 2 * MICROS_PER_DAY, l_first_seen = Some 0\<rparr>"
  let ?store = "[''0xabc'' \<mapsto> ?data]"
  have h1: "?store ''0xabc'' = Some ?data" by simp
  have h2: "''0xabc'' \<noteq> []" by simp
  obtain doc evs where
    w: "snd (record_purchase NoFault (31 * MICROS_PER_DAY) (Some ?store) ''0xabc'' 3 (1 / 2)
              ''oracle'') = Some (?store(''0xabc'' \<mapsto> doc))"
    and e: "l_events doc = Some evs"
    and v: "evs = filter (\<lambda>e. event_time (31 * MICROS_PER_DAY) e
                      > 31 * MICROS_PER_DAY - WINDOW_DAYS * MICROS_PER_DAY)
               (case l_events ?data of None \<Rightarrow> [] | Some es \<Rightarrow> es)
             @ [new_event (31 * MICROS_PER_DAY) 3 (1 / 2) ''oracle'']"
    and r: "l_records_30d doc = Some (sum_list (map event_records evs))"
    and s: "l_spend_30d doc = py_round_nd (sum_list (map event_amount evs)) 2"
    using record_purchase_prunes [of ?store "''0xabc''" ?data "31 * MICROS_PER_DAY" 3 "1 / 2"
        "''oracle''", OF h1 h2]
    by blast
  have evs: "evs = [new_event (2 * MICROS_PER_DAY) 40 8 ''oracle'',
                    new_event (31 * MICROS_PER_DAY) 3 (1 / 2) ''oracle'']"
    unfolding v
    by (simp add: event_time_def new_event_def WINDOW_DAYS_def MICROS_PER_DAY_def)
  have "l_records_30d doc = Some 43"
    unfolding r evs by (simp add: event_records_def new_event_def)
  moreover have "l_spend_30d doc = 17 / 2"
    unfolding s evs
    by (simp add: event_amount_def new_event_def py_round_nd_def py_round_def Let_def)
  moreover have "l_events doc = Some [new_event (2 * MICROS_PER_DAY) 40 8 ''oracle'',
                            new_event (31 * MICROS_PER_DAY) 3 (1 / 2) ''oracle'']"
    using e evs by simp
  moreover have "snd (record_purchase NoFault (31 * MICROS_PER_DAY) (Some ?store) ''0xabc'' 3
       (1 / 2) ''oracle'') = Some [''0xabc'' \<mapsto> doc]"
    using w by simp
  ultimately show ?thesis by blast
qed

text \<open>
  Claim C8. The claim wants \<open>enterprise_outreach\<close> false at a 30-day spend of exactly
  200.00 USD. The first purchase of a wallet, for exactly 200.00 USD, gives a spend of
  200.00 and the flag comes back true: the source compares with \<open>>=\<close>.
\<close>

theorem record_purchase_outreach_at_threshold:
  "enterprise_outreach (fst (record_purchase NoFault 0 (Some Map.empty) ''0xabc'' 1 200 ''oracle''))
     = Some True"
  by (simp add: record_purchase_def Let_def outreach_purchase_tier_info ENTERPRISE_OUTREACH_THRESHOLD_USD_def)


section \<open>Properties of the rate limiter\<close>

lemma timestamps_update:
  "timestamps (L\<lparr>memory := m\<rparr>) k = (case m k of None \<Rightarrow> [] | Some ts \<Rightarrow> ts)"
  by (simp add: timestamps_def)

lemma check_memory_eq:
  "check_memory now L key mx ws =
     (let kept = filter (\<lambda>t. t > now - of_int ws) (timestamps L key)
      in if int (length kept) \<ge> mx then (False, L\<lparr>memory := (memory L)(key \<mapsto> kept)\<rparr>)
         else (True, L\<lparr>memory := (memory L)(key \<mapsto> kept @ [now])\<rparr>))"
  by (auto simp add: check_memory_def defaultdict_get_def timestamps_def Let_def
        split: option.splits)

text \<open>
  Claim C3. In the in-memory mode a check keeps, of the timestamps recorded for the key,
  those newer than \<open>now - window_seconds\<close> (every older one is discarded, and so is
  one at exactly that instant), denies
  without recording \<open>now\<close> when the kept ones number \<open>max_requests\<close> or more, and
  otherwise records \<open>now\<close> and allows. So a caller denied at capacity is admitted at a
  later check as soon as fewer than \<open>max_requests\<close> of the recorded timestamps are still
  in the window; when all of them have aged out (and the limit is at least 1), the key's
  list after that check is the new timestamp alone.
\<close>

theorem check_memory_window:
  "fst (check_memory now L key mx ws)
      = (int (length (filter (\<lambda>t. t > now - of_int ws) (timestamps L key))) < mx)
   \<and> timestamps (snd (check_memory now L key mx ws)) key
      = (if fst (check_memory now L key mx ws)
         then filter (\<lambda>t. t > now - of_int ws) (timestamps L key) @ [now]
         else filter (\<lambda>t. t > now - of_int ws) (timestamps L key))
   \<and> (\<forall>t \<in> set (timestamps L key). t < now - of_int ws \<longrightarrow>
         t \<notin> set (filter (\<lambda>t. t > now - of_int ws) (timestamps L key)))
   \<and> (\<not> fst (check_memory now L key mx ws)
        \<and> int (length (filter (\<lambda>t. t > later - of_int ws)
                   (timestamps (snd (check_memory now L key mx ws)) key))) < mx
      \<longrightarrow> fst (check_memory later (snd (check_memory now L key mx ws)) key mx ws))
   \<and> (\<not> fst (check_memory now L key mx ws) \<and> 1 \<le> mx
        \<and> (\<forall>t \<in> set (timestamps L key). t \<le> later - of_int ws)
      \<longrightarrow> check_memory later (snd (check_memory now L key mx ws)) key mx ws
            = (True, L\<lparr>memory := (memory L)(key \<mapsto> [later])\<rparr>))"
  by (auto simp add: check_memory_eq Let_def timestamps_update filter_empty_conv not_less)

theorem check_memory_window_witness:
  "\<not> fst (check_memory 5 \<lparr>memory = [''preview:k'' \<mapsto> [1, 2]], db = None\<rparr> ''preview:k'' 2 10)
   \<and> check_memory 12
        (snd (check_memory 5 \<lparr>memory = [''preview:k'' \<mapsto> [1, 2]], db = None\<rparr> ''preview:k'' 2 10))
        ''preview:k'' 2 10
      = (True, \<lparr>memory = [''preview:k'' \<mapsto> [12]], db = None\<rparr>)"
  using check_memory_window [of 5 "\<lparr>memory = [''preview:k'' \<mapsto> [1, 2]], db = None\<rparr>"
      "''preview:k''" 2 10 12]
  by (simp add: timestamps_def)

lemma remaining_eq:
  "remaining now L key mx ws =
     (max 0 (mx - int (length (filter (\<lambda>t. t > now - of_int ws) (timestamps L key)))),
      L\<lparr>memory := (case memory L key of None \<Rightarrow> (memory L)(key \<mapsto> []) | Some ts \<Rightarrow> memory L)\<rparr>)"
  by (auto simp add: remaining_def defaultdict_get_def timestamps_def Let_def split: option.splits)


lemma check_async_fresh:
  assumes "db L = Some store" and "\<not> store_raises c"
    and "window_key S (wall_clock c) ws = Inr wk" and "store (key @ '':'' @ wk) = None"
  shows "check_async S (store_raises c) (wall_clock c) (mono_clock c) L key mx ws =
     (True, L\<lparr>db := Some (store(key @ '':'' @ wk \<mapsto>
        \<lparr>d_key = key, d_count = Some 1, d_window = wk, d_created_at = wall_clock c,
         d_expire_at = wall_clock c + (ws + 3600) * MICROS_PER_SECOND\<rparr>))\<rparr>)"
  using assms by (simp add: check_async_def check_firestore_def update_in_txn_def Let_def)

lemma d_count_update_same: "d_count data = Some n \<Longrightarrow> data\<lparr>d_count := Some n\<rparr> = data"
  by (cases data) simp

lemma check_async_existing:
  assumes "db L = Some store" and "\<not> store_raises c"
    and "window_key S (wall_clock c) ws = Inr wk" and "store (key @ '':'' @ wk) = Some data"
    and "d_count data = Some n"
  shows "check_async S (store_raises c) (wall_clock c) (mono_clock c) L key mx ws =
     (n < mx, L\<lparr>db := Some (store(key @ '':'' @ wk \<mapsto>
        data\<lparr>d_count := Some (if n < mx then n + 1 else n)\<rparr>))\<rparr>)"
  using assms
  by (auto simp add: check_async_def check_firestore_def update_in_txn_def Let_def
        d_count_update_same)

lemma check_async_calls_existing:
  assumes "\<forall>c \<in> set cs. \<not> store_raises c \<and> window_key S (wall_clock c) ws = Inr wk"
    and "db L = Some store" and "store (key @ '':'' @ wk) = Some data"
    and "d_count data = Some n" and "n \<le> mx"
  shows "fst (check_async_calls S L key mx ws cs) = map (\<lambda>i. n + int i < mx) [0..<length cs]
    \<and> stored_count (snd (check_async_calls S L key mx ws cs)) (key @ '':'' @ wk)
        = Some (min (n + int (length cs)) mx)
    \<and> memory (snd (check_async_calls S L key mx ws cs)) = memory L"
  using assms
proof (induction cs arbitrary: L store data n)
  case Nil
  then show ?case by (simp add: stored_count_def)
next
  case (Cons c cs)
  let ?id = "key @ '':'' @ wk"
  let ?n' = "if n < mx then n + 1 else n"
  let ?data' = "data\<lparr>d_count := Some ?n'\<rparr>"
  let ?store' = "store(?id \<mapsto> ?data')"
  let ?L' = "L\<lparr>db := Some ?store'\<rparr>"
  have c: "\<not> store_raises c" "window_key S (wall_clock c) ws = Inr wk"
    using Cons.prems(1) by simp_all
  have step: "check_async S (store_raises c) (wall_clock c) (mono_clock c) L key mx ws
      = (n < mx, ?L')"
    using check_async_existing [OF Cons.prems(2) c Cons.prems(3) Cons.prems(4)] .
  have rest: "\<forall>c \<in> set cs. \<not> store_raises c \<and> window_key S (wall_clock c) ws = Inr wk"
    using Cons.prems(1) by simp
  have le: "?n' \<le> mx" using Cons.prems(5) by simp
  have IH: "fst (check_async_calls S ?L' key mx ws cs) = map (\<lambda>i. ?n' + int i < mx) [0..<length cs]
    \<and> stored_count (snd (check_async_calls S ?L' key mx ws cs)) ?id
        = Some (min (?n' + int (length cs)) mx)
    \<and> memory (snd (check_async_calls S ?L' key mx ws cs)) = memory ?L'"
  proof (rule Cons.IH [OF rest, of ?L' ?store' ?data' ?n'])
    show "db ?L' = Some ?store'" by simp
    show "?store' ?id = Some ?data'" by simp
    show "d_count ?data' = Some ?n'" by simp
    show "?n' \<le> mx" by (rule le)
  qed
  have dec: "map (\<lambda>i. n + int i < mx) [0..<length (c # cs)]
      = (n < mx) # map (\<lambda>i. ?n' + int i < mx) [0..<length cs]"
  proof -
    have "[0..<length (c # cs)] = 0 # map Suc [0..<length cs]"
      by (simp add: upt_conv_Cons map_Suc_upt del: upt_Suc)
    then show ?thesis using Cons.prems(5) by (auto simp add: comp_def)
  qed
  have cnt: "min (?n' + int (length cs)) mx = min (n + int (length (c # cs))) mx"
    using Cons.prems(5) by auto
  show ?case
    using IH dec cnt by (simp add: step split_beta Let_def)
qed


lemma check_async_calls_fresh:
  assumes "\<forall>c \<in> set cs. \<not> store_raises c \<and> window_key S (wall_clock c) ws = Inr wk"
    and "db L = Some store" and "store (key @ '':'' @ wk) = None" and "1 \<le> mx"
    and "cs \<noteq> []"
  shows "fst (check_async_calls S L key mx ws cs) = map (\<lambda>i. int i < mx) [0..<length cs]
    \<and> stored_count (snd (check_async_calls S L key mx ws cs)) (key @ '':'' @ wk)
        = Some (min (int (length cs)) mx)
    \<and> memory (snd (check_async_calls S L key mx ws cs)) = memory L"
proof -
  obtain c cs' where cs: "cs = c # cs'"
    using assms(5) by (cases cs) auto
  let ?id = "key @ '':'' @ wk"
  let ?data = "\<lparr>d_key = key, d_count = Some 1, d_window = wk, d_created_at = wall_clock c,
         d_expire_at = wall_clock c + (ws + 3600) * MICROS_PER_SECOND\<rparr>"
  let ?store' = "store(?id \<mapsto> ?data)"
  let ?L' = "L\<lparr>db := Some ?store'\<rparr>"
  have c: "\<not> store_raises c" "window_key S (wall_clock c) ws = Inr wk"
    using assms(1) cs by simp_all
  have step: "check_async S (store_raises c) (wall_clock c) (mono_clock c) L key mx ws
      = (True, ?L')"
    using check_async_fresh [OF assms(2) c assms(3)] .
  have rest: "\<forall>c \<in> set cs'. \<not> store_raises c \<and> window_key S (wall_clock c) ws = Inr wk"
    using assms(1) cs by simp
  have tail: "fst (check_async_calls S ?L' key mx ws cs') = map (\<lambda>i. 1 + int i < mx) [0..<length cs']
    \<and> stored_count (snd (check_async_calls S ?L' key mx ws cs')) ?id
        = Some (min (1 + int (length cs')) mx)
    \<and> memory (snd (check_async_calls S ?L' key mx ws cs')) = memory ?L'"
  proof (rule check_async_calls_existing [OF rest, of ?L' ?store' key ?data 1 mx])
    show "db ?L' = Some ?store'" by simp
    show "?store' ?id = Some ?data" by simp
    show "d_count ?data = Some 1" by simp
    show "1 \<le> mx" by (rule assms(4))
  qed
  have dec: "map (\<lambda>i. int i < mx) [0..<length cs]
      = True # map (\<lambda>i. 1 + int i < mx) [0..<length cs']"
  proof -
    have "[0..<length cs] = 0 # map Suc [0..<length cs']"
      unfolding cs by (simp add: upt_conv_Cons map_Suc_upt del: upt_Suc)
    then show ?thesis using assms(4) by (auto simp add: comp_def)
  qed
  show ?thesis
    using tail dec by (simp add: cs step split_beta Let_def)
qed

lemma count_admitted:
  "int (length (filter (\<lambda>b. b) (map (\<lambda>i. int i < mx) [0..<n]))) = max 0 (min (int n) mx)"
  by (induction n) auto

text \<open>
  The durable path on limits of at least 1. The transaction \<open>update_in_txn\<close> stores
  \<open>count = 1\<close> when the document is absent, admits and increments when the stored count
  is below \<open>max_requests\<close>, and denies leaving the document as it is when the count has
  reached \<open>max_requests\<close>. For a limit of at least 1, and calls that all take the durable
  path on the same key and window bucket, starting from an absent document: call number
  \<open>i\<close> (from 0) is admitted exactly when \<open>i < max_requests\<close>, the stored count after
  \<open>j\<close> calls is \<open>min j max_requests\<close>, the admitted calls number
  \<open>min (number of calls) max_requests\<close>, and call number \<open>max_requests + 1\<close> is denied.
\<close>

theorem durable_bucket_bound:
  assumes "1 \<le> mx" and "db L = Some store" and "store (key @ '':'' @ wk) = None"
    and "\<forall>c \<in> set cs. \<not> store_raises c \<and> window_key S (wall_clock c) ws = Inr wk"
  shows "update_in_txn now key wk m ws None =
        (True, Some \<lparr>d_key = key, d_count = Some 1, d_window = wk, d_created_at = now,
                     d_expire_at = now + (ws + 3600) * MICROS_PER_SECOND\<rparr>)
    \<and> (\<forall>data. (case d_count data of None \<Rightarrow> 0 | Some n \<Rightarrow> n) < m \<longrightarrow>
          update_in_txn now key wk m ws (Some data) =
            (True, Some (data\<lparr>d_count :=
                     Some ((case d_count data of None \<Rightarrow> 0 | Some n \<Rightarrow> n) + 1)\<rparr>)))
    \<and> (\<forall>data. m \<le> (case d_count data of None \<Rightarrow> 0 | Some n \<Rightarrow> n) \<longrightarrow>
          update_in_txn now key wk m ws (Some data) = (False, Some data))
    \<and> fst (check_async_calls S L key mx ws cs) = map (\<lambda>i. int i < mx) [0..<length cs]
    \<and> (\<forall>j. 1 \<le> j \<and> j \<le> length cs \<longrightarrow>
          stored_count (snd (check_async_calls S L key mx ws (take j cs))) (key @ '':'' @ wk)
            = Some (min (int j) mx))
    \<and> int (length (filter (\<lambda>b. b) (fst (check_async_calls S L key mx ws cs))))
        = min (int (length cs)) mx
    \<and> (mx < int (length cs) \<longrightarrow> \<not> fst (check_async_calls S L key mx ws cs) ! nat mx)"
proof -
  have txn1: "update_in_txn now key wk m ws None =
        (True, Some \<lparr>d_key = key, d_count = Some 1, d_window = wk, d_created_at = now,
                     d_expire_at = now + (ws + 3600) * MICROS_PER_SECOND\<rparr>)"
    by (simp add: update_in_txn_def)
  have txn2: "\<forall>data. (case d_count data of None \<Rightarrow> 0 | Some n \<Rightarrow> n) < m \<longrightarrow>
          update_in_txn now key wk m ws (Some data) =
            (True, Some (data\<lparr>d_count :=
                     Some ((case d_count data of None \<Rightarrow> 0 | Some n \<Rightarrow> n) + 1)\<rparr>))"
    by (simp add: update_in_txn_def Let_def)
  have txn3: "\<forall>data. m \<le> (case d_count data of None \<Rightarrow> 0 | Some n \<Rightarrow> n) \<longrightarrow>
          update_in_txn now key wk m ws (Some data) = (False, Some data)"
    by (simp add: update_in_txn_def Let_def)
  have dec: "fst (check_async_calls S L key mx ws cs) = map (\<lambda>i. int i < mx) [0..<length cs]"
  proof (cases "cs = []")
    case True
    then show ?thesis by simp
  next
    case False
    then show ?thesis
      using check_async_calls_fresh [OF assms(4) assms(2) assms(3) assms(1)] by simp
  qed
  have pre: "\<forall>j. 1 \<le> j \<and> j \<le> length cs \<longrightarrow>
          stored_count (snd (check_async_calls S L key mx ws (take j cs))) (key @ '':'' @ wk)
            = Some (min (int j) mx)"
  proof (intro allI impI)
    fix j assume j: "1 \<le> j \<and> j \<le> length cs"
    have hyp: "\<forall>c \<in> set (take j cs). \<not> store_raises c \<and> window_key S (wall_clock c) ws = Inr wk"
      using assms(4) by (meson in_set_takeD)
    have ne: "take j cs \<noteq> []" using j by auto
    have len: "length (take j cs) = j" using j by simp
    show "stored_count (snd (check_async_calls S L key mx ws (take j cs))) (key @ '':'' @ wk)
            = Some (min (int j) mx)"
      using check_async_calls_fresh [OF hyp assms(2) assms(3) assms(1) ne] len by simp
  qed
  have cnt: "int (length (filter (\<lambda>b. b) (fst (check_async_calls S L key mx ws cs))))
        = min (int (length cs)) mx"
  proof -
    have "int (length (filter (\<lambda>b. b) (fst (check_async_calls S L key mx ws cs))))
        = max 0 (min (int (length cs)) mx)"
      unfolding dec by (rule count_admitted)
    then show ?thesis using assms(1) by simp
  qed
  have over: "mx < int (length cs) \<longrightarrow> \<not> fst (check_async_calls S L key mx ws cs) ! nat mx"
  proof
    assume big: "mx < int (length cs)"
    then have lt: "nat mx < length cs" using assms(1) by simp
    then have "[0..<length cs] ! nat mx = nat mx" by simp
    then show "\<not> fst (check_async_calls S L key mx ws cs) ! nat mx"
      using lt assms(1) by (simp add: dec)
  qed
  show ?thesis
    using txn1 txn2 txn3 dec pre cnt over by blast
qed


theorem durable_bucket_bound_witness:
  "fst (check_async_calls strftime_stub durable_limiter ''reader:10.0.0.7'' 2 86400
          [call_at 1793750400000000 10, call_at 1793750460000000 70,
           call_at 1793750520000000 130])
     = [True, True, False]
   \<and> stored_count (snd (check_async_calls strftime_stub durable_limiter ''reader:10.0.0.7'' 2
          86400 [call_at 1793750400000000 10, call_at 1793750460000000 70,
                 call_at 1793750520000000 130]))
        ''reader:10.0.0.7:2026-11-04'' = Some 2"
proof -
  let ?cs = "[call_at 1793750400000000 10, call_at 1793750460000000 70,
              call_at 1793750520000000 130]"
  have h1: "(1::int) \<le> 2" by simp
  have h2: "db durable_limiter = Some Map.empty" by (simp add: durable_limiter_def)
  have h3: "(Map.empty :: rate_store) (''reader:10.0.0.7'' @ '':'' @ ''2026-11-04'') = None" by simp
  have h4: "\<forall>c \<in> set ?cs. \<not> store_raises c
      \<and> window_key strftime_stub (wall_clock c) 86400 = Inr ''2026-11-04''"
    by (simp add: call_at_def window_key_def strftime_stub_def)
  note th = durable_bucket_bound [OF h1 h2 h3 h4]
  have a: "fst (check_async_calls strftime_stub durable_limiter ''reader:10.0.0.7'' 2 86400 ?cs)
      = map (\<lambda>i. int i < 2) [0..<length ?cs]"
    using th by blast
  have b: "\<forall>j. 1 \<le> j \<and> j \<le> length ?cs \<longrightarrow>
      stored_count (snd (check_async_calls strftime_stub durable_limiter ''reader:10.0.0.7'' 2
         86400 (take j ?cs))) (''reader:10.0.0.7'' @ '':'' @ ''2026-11-04'') = Some (min (int j) 2)"
    using th by blast
  have c: "stored_count (snd (check_async_calls strftime_stub durable_limiter ''reader:10.0.0.7'' 2
         86400 ?cs)) (''reader:10.0.0.7'' @ '':'' @ ''2026-11-04'') = Some 2"
    using spec [OF b, of 3] by (simp del: check_async_calls.simps)
  have up: "[0..<3] = [0, 1, 2]" by (simp add: upt_rec)
  show ?thesis
    using a c by (simp add: up del: check_async_calls.simps)
qed

text \<open>
  Claim C1. The claim bounds the stored count and the admitted calls of a bucket by
  \<open>max_requests\<close>, for every limit. With \<open>max_requests = 0\<close> the durable path admits
  the first call of a bucket and stores \<open>count = 1\<close>: the branch for an absent document
  never compares with the limit. At the same limit the branch for an existing document
  (count 0) denies and leaves the document alone, and so does the in-memory path.
\<close>

theorem durable_zero_limit_admits:
  "fst (check_async strftime_stub False 1793750400000000 10 durable_limiter
          ''reader:10.0.0.7'' 0 86400) = True
   \<and> stored_count (snd (check_async strftime_stub False 1793750400000000 10 durable_limiter
          ''reader:10.0.0.7'' 0 86400)) ''reader:10.0.0.7:2026-11-04'' = Some 1
   \<and> update_in_txn 1793750400000000 ''reader:10.0.0.7'' ''2026-11-04'' 0 86400 None
       = (True, Some \<lparr>d_key = ''reader:10.0.0.7'', d_count = Some 1, d_window = ''2026-11-04'',
                       d_created_at = 1793750400000000,
                       d_expire_at = 1793750400000000 + (86400 + 3600) * MICROS_PER_SECOND\<rparr>)
   \<and> update_in_txn 1793750400000000 ''reader:10.0.0.7'' ''2026-11-04'' 0 86400
         (Some \<lparr>d_key = ''reader:10.0.0.7'', d_count = Some 0, d_window = ''2026-11-04'',
                 d_created_at = 1793750400000000, d_expire_at = 1793840400000000\<rparr>)
       = (False, Some \<lparr>d_key = ''reader:10.0.0.7'', d_count = Some 0,
                        d_window = ''2026-11-04'', d_created_at = 1793750400000000,
                        d_expire_at = 1793840400000000\<rparr>)
   \<and> fst (check_memory 10 memory_limiter ''reader:10.0.0.7'' 0 86400) = False"
  by (simp add: check_async_def check_firestore_def update_in_txn_def window_key_def
        strftime_stub_def durable_limiter_def stored_count_def check_memory_eq
        memory_limiter_def timestamps_def Let_def)

lemma check_async_durable:
  assumes "db L = Some store" and "\<not> raises" and "ws \<noteq> 0"
  shows "memory (snd (check_async S raises now mono_now L key mx ws)) = memory L
    \<and> db (snd (check_async S raises now mono_now L key mx ws)) \<noteq> None"
  using assms
  by (auto simp add: check_async_def check_firestore_def window_key_def Let_def
        split: prod.splits sum.splits)

lemma check_async_calls_durable:
  assumes "\<forall>c \<in> set cs. \<not> store_raises c" and "db L \<noteq> None" and "ws \<noteq> 0"
  shows "memory (snd (check_async_calls S L key mx ws cs)) = memory L"
  using assms
proof (induction cs arbitrary: L)
  case Nil
  then show ?case by simp
next
  case (Cons c cs)
  obtain store where st: "db L = Some store" using Cons.prems(2) by auto
  let ?r = "check_async S (store_raises c) (wall_clock c) (mono_clock c) L key mx ws"
  have c: "\<not> store_raises c" using Cons.prems(1) by simp
  have one: "memory (snd ?r) = memory L \<and> db (snd ?r) \<noteq> None"
    by (rule check_async_durable [OF st c Cons.prems(3)])
  have rest: "\<forall>c \<in> set cs. \<not> store_raises c" using Cons.prems(1) by simp
  have "memory (snd (check_async_calls S (snd ?r) key mx ws cs)) = memory (snd ?r)"
    using Cons.IH [OF rest _ Cons.prems(3), of "snd ?r"] one by simp
  then show ?case using one by (simp add: split_beta Let_def)
qed

text \<open>
  Claim C9, amended. \<open>remaining\<close> returns \<open>max(0, max_requests - n)\<close>, \<open>n\<close> the number
  of the key's in-memory timestamps newer than \<open>now - window_seconds\<close>. It leaves the
  Firestore client and every key's timestamps as they are; the one change it makes is
  to enter a key that the \<open>defaultdict\<close> did not hold yet, with an empty list. Its value
  does not depend on the durable store, and after any number of calls of \<open>check_async\<close>
  that take the durable path, with no timestamp in memory for the key, it is
  \<open>max(0, max_requests)\<close>.
\<close>

theorem remaining_memory_only:
  "fst (remaining now L key mx ws)
      = max 0 (mx - int (length (filter (\<lambda>t. t > now - of_int ws) (timestamps L key))))
   \<and> db (snd (remaining now L key mx ws)) = db L
   \<and> (\<forall>k. timestamps (snd (remaining now L key mx ws)) k = timestamps L k)
   \<and> memory (snd (remaining now L key mx ws))
      = (case memory L key of None \<Rightarrow> (memory L)(key \<mapsto> []) | Some ts \<Rightarrow> memory L)
   \<and> fst (remaining now (L\<lparr>db := d\<rparr>) key mx ws) = fst (remaining now L key mx ws)
   \<and> (db L \<noteq> None \<and> ws' \<noteq> 0 \<and> (\<forall>c \<in> set cs. \<not> store_raises c) \<and> timestamps L key = []
        \<longrightarrow> fst (remaining now (snd (check_async_calls S L key mx ws' cs)) key mx ws) = max 0 mx)"
proof -
  have seq: "fst (remaining now (snd (check_async_calls S L key mx ws' cs)) key mx ws) = max 0 mx"
    if "db L \<noteq> None" "ws' \<noteq> 0" "\<forall>c \<in> set cs. \<not> store_raises c" "timestamps L key = []"
  proof -
    have "memory (snd (check_async_calls S L key mx ws' cs)) = memory L"
      by (rule check_async_calls_durable [OF that(3) that(1) that(2)])
    then have "timestamps (snd (check_async_calls S L key mx ws' cs)) key = []"
      using that(4) by (simp add: timestamps_def)
    then show ?thesis by (simp add: remaining_eq)
  qed
  have view: "\<forall>k. timestamps (snd (remaining now L key mx ws)) k = timestamps L k"
    by (auto simp add: remaining_eq timestamps_def split: option.splits)
  show ?thesis
    using seq view by (simp add: remaining_eq timestamps_def)
qed

text \<open>
  For a key that the in-memory map does not hold, the limiter after \<open>remaining\<close> is not
  the limiter before it: the claim C9 as stated, without any change of state, does not
  hold.
\<close>

theorem remaining_enters_key:
  "snd (remaining 10 memory_limiter ''preview:k'' 5 60) \<noteq> memory_limiter"
proof
  assume "snd (remaining 10 memory_limiter ''preview:k'' 5 60) = memory_limiter"
  then have "memory (snd (remaining 10 memory_limiter ''preview:k'' 5 60)) ''preview:k''
      = memory memory_limiter ''preview:k''"
    by simp
  then show False
    by (simp add: remaining_eq memory_limiter_def)
qed

theorem remaining_memory_only_witness:
  "fst (remaining 200 (snd (check_async_calls strftime_stub durable_limiter ''reader:10.0.0.7'' 5
          86400 [call_at 1793750400000000 10, call_at 1793750460000000 70])) ''reader:10.0.0.7'' 5
          86400) = 5"
  using remaining_memory_only [of 200 durable_limiter "''reader:10.0.0.7''" 5 86400 None 86400
      "[call_at 1793750400000000 10, call_at 1793750460000000 70]" strftime_stub]
  by (simp add: durable_limiter_def timestamps_def call_at_def del: check_async_calls.simps)


section \<open>Properties of the payment verification\<close>

lemma verify_posted:
  assumes "snd (verify_x402_payment env h a) = [req]"
  shows "h \<noteq> [] \<and> \<not> X402_TEST_MODE env
    \<and> fst (verify_x402_payment env h a)
        = catch_exceptions (interpret_response env a (http_post env req))
    \<and> (\<exists>p reqs. decode_payment_header env h = Some (JObj p)
          \<and> r_body req = JObj [(''x402Version'', dict_get p ''x402Version'' (JInt 1)),
                               (''paymentPayload'', JObj p),
                               (''paymentRequirements'', reqs)])"
  using assms
  by (auto simp add: verify_x402_payment_def verify_try_def Let_def
        split: if_splits option.splits json.splits sum.splits prod.splits)




lemma interpret_object:
  "interpret_response env a (HttpResponse 200 text (Inr (JObj d))) =
     (if truthy (dict_get d ''success'' (JBool False))
      then Inr (payment_ok a
             (case dict_get d ''transaction'' (dict_get d ''txHash'' (JStr [])) of
                JObj t \<Rightarrow> dict_get t ''txHash'' (JStr [])
              | JStr s \<Rightarrow> JStr s
              | v \<Rightarrow> JStr (py_str env v)))
      else Inr (payment_failed (dict_get d ''error'' (JStr ''Settlement failed''))))"
  by (simp add: interpret_response_def Let_def str_value_def split: json.splits)




text \<open>
  Claim C4. For every required amount (and every environment, test mode or not), an empty
  payment header gives \<open>valid = False\<close> with the error \<open>Missing payment header\<close>, and no
  request is posted to the facilitator.
\<close>

theorem verify_empty_header:
  "verify_x402_payment env [] a = (payment_failed (JStr ''Missing payment header''), [])
   \<and> valid (fst (verify_x402_payment env [] a)) = False
   \<and> error (fst (verify_x402_payment env [] a)) = JStr ''Missing payment header''
   \<and> snd (verify_x402_payment env [] a) = []"
  by (simp add: verify_x402_payment_def payment_failed_def)

text \<open>
  Claim C5. For a non-empty header with test mode off: when base64 decoding and JSON
  parsing of the decoded bytes both succeed, that payload is taken; when either fails, the
  header itself is parsed as JSON; when that fails too, the result is \<open>valid = False\<close>
  with the error \<open>Cannot decode payment header\<close> and nothing is posted. Whenever a
  settlement request is posted, the payload decoded to an object and the request's
  \<open>x402Version\<close> is the payload's, or 1 when the payload has none; and a request is
  posted whenever the payload is an object, the amount is finite and building the
  headers raises nothing.
\<close>

theorem verify_decodes_header:
  assumes "h \<noteq> []" and "\<not> X402_TEST_MODE env"
  shows "(\<forall>bytes p. b64decode env h = Some bytes \<and> json_loads env bytes = Some p
          \<longrightarrow> decode_payment_header env h = Some p)
    \<and> (b64decode env h = None \<or> (\<exists>bytes. b64decode env h = Some bytes \<and> json_loads env bytes = None)
          \<longrightarrow> decode_payment_header env h = json_loads env h)
    \<and> (decode_payment_header env h = None
          \<longrightarrow> verify_x402_payment env h a
              = (payment_failed (JStr ''Cannot decode payment header''), []))
    \<and> (\<forall>req. snd (verify_x402_payment env h a) = [req]
          \<longrightarrow> (\<exists>p reqs. decode_payment_header env h = Some (JObj p)
                \<and> r_body req = JObj [(''x402Version'', dict_get p ''x402Version'' (JInt 1)),
                                     (''paymentPayload'', JObj p),
                                     (''paymentRequirements'', reqs)]))
    \<and> (\<forall>p x hs. decode_payment_header env h = Some (JObj p) \<and> a = Finite x
            \<and> auth_headers env = Inr hs
          \<longrightarrow> (\<exists>reqs. snd (verify_x402_payment env h a)
                = [\<lparr>r_url = X402_FACILITATOR_URL env @ ''/settle'', r_headers = hs,
                    r_body = JObj [(''x402Version'', dict_get p ''x402Version'' (JInt 1)),
                                   (''paymentPayload'', JObj p),
                                   (''paymentRequirements'', reqs)]\<rparr>]))"
proof -
  have a5: "\<forall>p x hs. decode_payment_header env h = Some (JObj p) \<and> a = Finite x
            \<and> auth_headers env = Inr hs
          \<longrightarrow> (\<exists>reqs. snd (verify_x402_payment env h a)
                = [\<lparr>r_url = X402_FACILITATOR_URL env @ ''/settle'', r_headers = hs,
                    r_body = JObj [(''x402Version'', dict_get p ''x402Version'' (JInt 1)),
                                   (''paymentPayload'', JObj p),
                                   (''paymentRequirements'', reqs)]\<rparr>])"
    using assms
    by (simp add: verify_x402_payment_def verify_try_def amount_smallest_def Let_def split_beta)
  have a1: "\<forall>bytes p. b64decode env h = Some bytes \<and> json_loads env bytes = Some p
          \<longrightarrow> decode_payment_header env h = Some p"
    by (simp add: decode_payment_header_def)
  have a2: "b64decode env h = None \<or> (\<exists>bytes. b64decode env h = Some bytes \<and> json_loads env bytes = None)
          \<longrightarrow> decode_payment_header env h = json_loads env h"
    by (auto simp add: decode_payment_header_def)
  have a3: "decode_payment_header env h = None
          \<longrightarrow> verify_x402_payment env h a
              = (payment_failed (JStr ''Cannot decode payment header''), [])"
    using assms by (simp add: verify_x402_payment_def verify_try_def catch_exceptions_def Let_def)
  have a4: "\<forall>req. snd (verify_x402_payment env h a) = [req]
          \<longrightarrow> (\<exists>p reqs. decode_payment_header env h = Some (JObj p)
                \<and> r_body req = JObj [(''x402Version'', dict_get p ''x402Version'' (JInt 1)),
                                     (''paymentPayload'', JObj p),
                                     (''paymentRequirements'', reqs)])"
    using verify_posted by blast
  show ?thesis using a1 a2 a3 a4 a5 by blast
qed

theorem verify_decodes_header_witness:
  "decode_payment_header (stub_env HttpTimeout) ''e30='' = Some (JObj [])
   \<and> decode_payment_header (stub_env HttpTimeout) ''{}'' = Some (JObj [])
   \<and> verify_x402_payment (stub_env HttpTimeout) ''not json'' (Finite (1 / 100))
       = (payment_failed (JStr ''Cannot decode payment header''), [])
   \<and> (\<exists>reqs. snd (verify_x402_payment (stub_env HttpTimeout) ''e30='' (Finite (1 / 100)))
       = [\<lparr>r_url = ''https://facilitator.example/x402/settle'',
           r_headers = [(''Content-Type'', ''application/json'')],
           r_body = JObj [(''x402Version'', JInt 1), (''paymentPayload'', JObj []),
                          (''paymentRequirements'', reqs)]\<rparr>])"
proof -
  let ?env = "stub_env HttpTimeout"
  have hs: "auth_headers ?env = Inr [(''Content-Type'', ''application/json'')]"
    by (simp add: auth_headers_def stub_env_def)
  have url: "X402_FACILITATOR_URL ?env = ''https://facilitator.example/x402''"
    by (simp add: stub_env_def)
  have t: "\<not> X402_TEST_MODE ?env" by (simp add: stub_env_def)
  have b1: "b64decode ?env ''e30='' = Some ''{}'' \<and> json_loads ?env ''{}'' = Some (JObj [])"
    by (simp add: stub_env_def)
  have b2: "b64decode ?env ''{}'' = Some [] \<and> json_loads ?env [] = None"
    by (simp add: stub_env_def)
  have j2: "json_loads ?env ''{}'' = Some (JObj [])"
    by (simp add: stub_env_def)
  have b3: "decode_payment_header ?env ''not json'' = None"
    by (simp add: stub_env_def decode_payment_header_def)
  have d1: "decode_payment_header ?env ''e30='' = Some (JObj [])"
    using verify_decodes_header [of "''e30=''" ?env] t b1 by auto
  moreover have "decode_payment_header ?env ''{}'' = Some (JObj [])"
    using verify_decodes_header [of "''{}''" ?env] t b2 j2 by auto
  moreover have "verify_x402_payment ?env ''not json'' (Finite (1 / 100))
       = (payment_failed (JStr ''Cannot decode payment header''), [])"
    using verify_decodes_header [of "''not json''" ?env "Finite (1 / 100)"] t b3 by auto
  moreover have "\<exists>reqs. snd (verify_x402_payment ?env ''e30='' (Finite (1 / 100)))
       = [\<lparr>r_url = ''https://facilitator.example/x402/settle'',
           r_headers = [(''Content-Type'', ''application/json'')],
           r_body = JObj [(''x402Version'', JInt 1), (''paymentPayload'', JObj []),
                          (''paymentRequirements'', reqs)]\<rparr>]"
  proof -
    have ne: "''e30='' \<noteq> []" by simp
    have "\<forall>p x hs. decode_payment_header ?env ''e30='' = Some (JObj p)
            \<and> Finite (1 / 100) = Finite x \<and> auth_headers ?env = Inr hs
          \<longrightarrow> (\<exists>reqs. snd (verify_x402_payment ?env ''e30='' (Finite (1 / 100)))
                = [\<lparr>r_url = X402_FACILITATOR_URL ?env @ ''/settle'', r_headers = hs,
                    r_body = JObj [(''x402Version'', dict_get p ''x402Version'' (JInt 1)),
                                   (''paymentPayload'', JObj p),
                                   (''paymentRequirements'', reqs)]\<rparr>])"
      using verify_decodes_header [OF ne t, of "Finite (1 / 100)"] by blast
    then have "\<exists>reqs. snd (verify_x402_payment ?env ''e30='' (Finite (1 / 100)))
                = [\<lparr>r_url = X402_FACILITATOR_URL ?env @ ''/settle'',
                    r_headers = [(''Content-Type'', ''application/json'')],
                    r_body = JObj [(''x402Version'', dict_get [] ''x402Version'' (JInt 1)),
                                   (''paymentPayload'', JObj []),
                                   (''paymentRequirements'', reqs)]\<rparr>]"
      using d1 hs by blast
    then show ?thesis by (simp add: url dict_get_def)
  qed
  ultimately show ?thesis by blast
qed

text \<open>
  Claim C10, amended. When the facilitator answers 200 with a JSON object that has no
  \<open>success\<close> field, the settlement counts as failed: \<open>valid = False\<close>, and the error is
  the object's \<open>error\<close> field when it has one and the generic \<open>Settlement failed\<close>
  otherwise, whatever \<open>transaction\<close> or \<open>txHash\<close> field the object carries.
\<close>

theorem verify_missing_success:
  assumes "snd (verify_x402_payment env h a) = [req]"
    and "http_post env req = HttpResponse 200 text (Inr (JObj d))"
    and "map_of d ''success'' = None"
  shows "fst (verify_x402_payment env h a)
        = payment_failed (dict_get d ''error'' (JStr ''Settlement failed''))
    \<and> valid (fst (verify_x402_payment env h a)) = False
    \<and> (map_of d ''error'' = None
          \<longrightarrow> error (fst (verify_x402_payment env h a)) = JStr ''Settlement failed'')
    \<and> (\<forall>e. map_of d ''error'' = Some e
          \<longrightarrow> error (fst (verify_x402_payment env h a)) = e)"
proof -
  have r: "fst (verify_x402_payment env h a)
        = catch_exceptions (interpret_response env a (http_post env req))"
    using verify_posted [OF assms(1)] by blast
  show ?thesis
    unfolding r assms(2)
    using assms(3)
    by (simp add: interpret_object catch_exceptions_def dict_get_def payment_failed_def)
qed

theorem verify_missing_success_witness:
  "fst (verify_x402_payment
          (stub_env (HttpResponse 200 ''(json)''
             (Inr (JObj [(''txHash'', JStr ''0xABCDEF'')]))))
          ''{}'' (Finite (1 / 100)))
     = payment_failed (JStr ''Settlement failed'')"
proof -
  let ?d = "[(''txHash'', JStr ''0xABCDEF'')]"
  let ?env = "stub_env (HttpResponse 200 ''(json)'' (Inr (JObj ?d)))"
  obtain req where posted: "snd (verify_x402_payment ?env ''{}'' (Finite (1 / 100))) = [req]"
    by (simp add: verify_x402_payment_def verify_try_def stub_env_def decode_payment_header_def
          amount_smallest_def auth_headers_def Let_def split_beta)
  have out: "http_post ?env req = HttpResponse 200 ''(json)'' (Inr (JObj ?d))"
    by (simp add: stub_env_def)
  have none: "map_of ?d ''success'' = None" by simp
  show ?thesis
    using verify_missing_success [OF posted out none] by (simp add: dict_get_def)
qed

text \<open>
  An object without \<open>success\<close> but with an \<open>error\<close> field: the error of the result is
  that field, not the generic text, so the claim C10 as stated, for every such object,
  does not hold.
\<close>

theorem verify_missing_success_error_field:
  "error (fst (verify_x402_payment
          (stub_env (HttpResponse 200 ''(json)''
             (Inr (JObj [(''error'', JStr ''insufficient funds''),
                         (''txHash'', JStr ''0xABCDEF'')]))))
          ''{}'' (Finite (1 / 100))))
     = JStr ''insufficient funds''"
  by (simp add: verify_x402_payment_def verify_try_def stub_env_def decode_payment_header_def
        amount_smallest_def auth_headers_def interpret_object catch_exceptions_def dict_get_def
        payment_failed_def Let_def split_beta)

end
